theory Spec2Isabelle
  imports Main
begin

section \<open>JavaScript values used by the client\<close>

text \<open>
  A JavaScript string is a sequence of UTF-16 code units; a code unit is modelled as a
  natural number, and a source literal \<open>'abc'\<close> is written \<open>lit ''abc''\<close>.
\<close>

type_synonym jsstring = "nat list"

abbreviation (input) lit :: "string \<Rightarrow> jsstring" where
  "lit s \<equiv> map of_char s"

text \<open>
  \<open>String.prototype.trim\<close> removes, at both ends, the code units that ECMAScript calls
  WhiteSpace or LineTerminator: TAB, LF, VT, FF, CR, SP, NBSP, U+1680, U+2000 to U+200A,
  LS, PS, U+202F, U+205F, U+3000 and U+FEFF.
\<close>

definition isWhiteSpace :: "nat \<Rightarrow> bool" where
  "isWhiteSpace c =
     (c \<in> {9, 10, 11, 12, 13, 32, 160, 5760, 8232, 8233, 8239, 8287, 12288, 65279}
      \<or> (8192 \<le> c \<and> c \<le> 8202))"

definition trim :: "jsstring \<Rightarrow> jsstring" where
  "trim s = rev (dropWhile isWhiteSpace (rev (dropWhile isWhiteSpace s)))"

text \<open>
  A property of a JSON payload that may be absent (\<open>undefined\<close>), \<open>null\<close> or hold a value.
\<close>

datatype 'a nullable = Undefined | Null | Value 'a

text \<open>
  The primitive values an identifier field of a match can carry. The contract makes it a
  string; absent fields read as \<open>undefined\<close>.
\<close>

datatype jsval = JUndefined | JNull | JBool bool | JStr jsstring

fun truthy :: "jsval \<Rightarrow> bool" where
  "truthy JUndefined = False"
| "truthy JNull = False"
| "truthy (JBool b) = b"
| "truthy (JStr s) = (s \<noteq> [])"

text \<open>The operator \<open>a || b\<close>: \<open>a\<close> when it is truthy, otherwise \<open>b\<close>.\<close>

definition js_or :: "jsval \<Rightarrow> jsval \<Rightarrow> jsval" where
  "js_or a b = (if truthy a then a else b)"

text \<open>The string a value contributes to a template literal \<open>`${v}`\<close>.\<close>

fun ToString :: "jsval \<Rightarrow> jsstring" where
  "ToString JUndefined = lit ''undefined''"
| "ToString JNull = lit ''null''"
| "ToString (JBool b) = (if b then lit ''true'' else lit ''false'')"
| "ToString (JStr s) = s"

text \<open>\<open>xs || []\<close> on an array-valued property: every array, also the empty one, is truthy.\<close>

fun or_empty :: "'a list nullable \<Rightarrow> 'a list" where
  "or_empty (Value xs) = xs"
| "or_empty Undefined = []"
| "or_empty Null = []"

section \<open>Payloads and requests\<close>

record match =
  m_entity_id :: jsval
  m_id :: jsval
  m_name :: jsstring
  m_type :: jsstring
  m_source :: jsstring

record sanction =
  program :: jsstring
  sanctioning_body :: jsstring

record entity =
  e_name :: jsstring
  e_category :: jsstring
  e_source :: jsstring
  e_aliases :: "jsstring list nullable"
  e_sanctions :: "sanction list nullable"

text \<open>
  The two requests the client issues: \<open>POST url {entity_name}\<close> and \<open>GET url\<close>.
\<close>

datatype http_request = POST jsstring jsstring | GET jsstring

text \<open>
  What the awaited \<open>axios.post\<close> yields: the promise is rejected on a network failure and
  on every status outside 2xx, otherwise it resolves to a response whose \<open>data.matches\<close>
  is absent, null or a list of matches.
\<close>

datatype screen_response = Rejected | Resolved "match list nullable"

text \<open>What the awaited \<open>axios.get\<close> yields; \<open>data\<close> is the entity, or null.\<close>

datatype entity_response = EntityRejected | EntityResolved "entity nullable"

section \<open>Backend location\<close>

text \<open>
  \<open>API_BASE_URL\<close> of App.js and of SearchResults.jsx, as a function of
  \<open>process.env.NODE_ENV\<close>.
\<close>

definition API_BASE_URL :: "jsstring \<Rightarrow> jsstring" where
  "API_BASE_URL node_env =
     (if node_env = lit ''production''
      then lit ''https://project-sentinel-2.onrender.com''
      else lit ''http://localhost:8000'')"

section \<open>dashboard-ui/src/App.js\<close>

record app_state =
  searchTerm :: jsstring
  results :: "match list"
  loading :: bool
  error :: jsstring
  searched :: bool

definition App_init :: app_state where
  "App_init = \<lparr>searchTerm = [], results = [], loading = False, error = [],
               searched = False\<rparr>"

text \<open>
  \<open>handleSearch\<close> up to its \<open>await\<close>: the guard, the four state updates, and the request
  that is issued (\<open>None\<close> when the handler returns without one).
\<close>

definition handleSearch_begin ::
  "jsstring \<Rightarrow> app_state \<Rightarrow> app_state \<times> http_request option" where
  "handleSearch_begin node_env st =
     (if trim (searchTerm st) = [] then (st, None)
      else (st\<lparr>loading := True, error := [], results := [], searched := True\<rparr>,
            Some (POST (API_BASE_URL node_env @ lit ''/v1/screen'') (searchTerm st))))"

text \<open>
  \<open>handleSearch\<close> from the point where the awaited request settles: the \<open>try\<close> branch on a
  resolved promise, the \<open>catch\<close> branch on a rejected one, then \<open>finally\<close>.
\<close>

fun handleSearch_resume :: "screen_response \<Rightarrow> app_state \<Rightarrow> app_state" where
  "handleSearch_resume (Resolved ms) st = st\<lparr>results := or_empty ms, loading := False\<rparr>"
| "handleSearch_resume Rejected st =
     st\<lparr>error := lit ''Search failed. Please check the connection and try again.'',
        loading := False\<rparr>"

definition handleKeyPress ::
  "jsstring \<Rightarrow> jsstring \<Rightarrow> app_state \<Rightarrow> app_state \<times> http_request option" where
  "handleKeyPress node_env key st =
     (if key = lit ''Enter'' then handleSearch_begin node_env st else (st, None))"

text \<open>The \<open>onChange\<close> handler of the input.\<close>

definition setSearchTerm :: "jsstring \<Rightarrow> app_state \<Rightarrow> app_state" where
  "setSearchTerm v st = st\<lparr>searchTerm := v\<rparr>"

section \<open>The other App component (src/unnamed/part_000)\<close>

text \<open>
  A second top-level \<open>App\<close>, with the state \<open>query\<close>, \<open>results\<close>, \<open>searched\<close>,
  \<open>loading\<close>, \<open>error\<close>. Its \<open>error\<close> starts as \<open>null\<close>, and \<open>results\<close> receives
  \<open>response.data.matches\<close> as it comes.
\<close>

record app2_state =
  query :: jsstring
  results2 :: "match list nullable"
  searched2 :: bool
  loading2 :: bool
  error2 :: "jsstring option"

definition App2_init :: app2_state where
  "App2_init = \<lparr>query = [], results2 = Value [], searched2 = False, loading2 = False,
                error2 = None\<rparr>"

definition handleSearch2_begin :: "app2_state \<Rightarrow> app2_state \<times> http_request option" where
  "handleSearch2_begin st =
     (if trim (query st) = [] then (st, None)
      else (st\<lparr>loading2 := True, error2 := None\<rparr>,
            Some (POST (lit ''http://localhost:8000/v1/screen'') (query st))))"

fun handleSearch2_resume :: "screen_response \<Rightarrow> app2_state \<Rightarrow> app2_state" where
  "handleSearch2_resume (Resolved ms) st =
     st\<lparr>results2 := ms, searched2 := True, loading2 := False\<rparr>"
| "handleSearch2_resume Rejected st =
     st\<lparr>error2 := Some (lit ''Search failed''), loading2 := False\<rparr>"

definition setQuery :: "jsstring \<Rightarrow> app2_state \<Rightarrow> app2_state" where
  "setQuery v st = st\<lparr>query := v\<rparr>"

section \<open>index.html\<close>

text \<open>
  The static page: the value of the input \<open>entity-name\<close> and the children of the element
  \<open>results\<close>, each a paragraph with its class and text.
\<close>

datatype node = Paragraph jsstring jsstring

record page =
  entity_name_value :: jsstring
  resultsDiv :: "node list"

record screen_effects =
  alerted :: "jsstring option"
  fetched :: "http_request option"

text \<open>\<open>performScreen\<close> up to its first \<open>await\<close>.\<close>

definition performScreen_begin :: "page \<Rightarrow> page \<times> screen_effects" where
  "performScreen_begin pg =
     (let entityName = trim (entity_name_value pg) in
      if entityName = []
      then (pg, \<lparr>alerted = Some (lit ''Please enter an entity name to screen.''),
                 fetched = None\<rparr>)
      else (pg\<lparr>resultsDiv := [Paragraph (lit ''text-center text-gray-500'')
                                          (lit ''Loading...'')]\<rparr>,
            \<lparr>alerted = None, fetched = Some (POST (lit ''/v1/screen'') entityName)\<rparr>))"

section \<open>dashboard-ui/src/components/SearchResults.jsx\<close>

record sr_state =
  selectedEntity :: "entity nullable"
  sr_loading :: bool
  sr_error :: "jsstring option"

definition SearchResults_init :: sr_state where
  "SearchResults_init = \<lparr>selectedEntity = Null, sr_loading = False, sr_error = None\<rparr>"

text \<open>\<open>handleResultClick\<close> up to its \<open>await\<close>, and from the point where the request settles.\<close>

definition handleResultClick_begin ::
  "jsstring \<Rightarrow> jsval \<Rightarrow> sr_state \<Rightarrow> sr_state \<times> http_request" where
  "handleResultClick_begin node_env entityId st =
     (st\<lparr>sr_loading := True, sr_error := None\<rparr>,
      GET (API_BASE_URL node_env @ lit ''/v1/entity/'' @ ToString entityId))"

fun handleResultClick_resume :: "entity_response \<Rightarrow> sr_state \<Rightarrow> sr_state" where
  "handleResultClick_resume (EntityResolved d) st =
     st\<lparr>selectedEntity := d, sr_loading := False\<rparr>"
| "handleResultClick_resume EntityRejected st =
     st\<lparr>sr_error := Some (lit ''Failed to fetch entity details''), sr_loading := False\<rparr>"

text \<open>The expression \<open>result.entity_id || result.id\<close> of a card.\<close>

definition card_identifier :: "match \<Rightarrow> jsval" where
  "card_identifier r = js_or (m_entity_id r) (m_id r)"

text \<open>The \<open>onClick\<close> handler of the card of \<open>r\<close>.\<close>

definition card_onClick :: "jsstring \<Rightarrow> match \<Rightarrow> sr_state \<Rightarrow> sr_state \<times> http_request" where
  "card_onClick node_env r st = handleResultClick_begin node_env (card_identifier r) st"

text \<open>
  What the component returns: \<open>None\<close> for \<open>null\<close>, otherwise the heading, one card per
  result, the loading line, the error line and the profile of the selected entity.
\<close>

record card =
  card_key :: jsval
  card_title :: jsstring
  card_badge :: jsstring
  card_text :: jsstring

record sr_view =
  heading :: jsstring
  cards :: "card list"
  loading_details :: bool
  error_text :: "jsstring option"
  profile :: "entity option"

definition render_card :: "match \<Rightarrow> card" where
  "render_card r = \<lparr>card_key = card_identifier r, card_title = m_name r,
                     card_badge = m_source r, card_text = m_type r\<rparr>"

fun SearchResults_render :: "match list nullable \<Rightarrow> sr_state \<Rightarrow> sr_view option" where
  "SearchResults_render Undefined st = None"
| "SearchResults_render Null st = None"
| "SearchResults_render (Value rs) st =
     (if rs = [] then None
      else Some \<lparr>heading = lit ''Results'',
                 cards = map render_card rs,
                 loading_details = sr_loading st,
                 error_text = (case sr_error st of None \<Rightarrow> None
                               | Some e \<Rightarrow> if e = [] then None else Some e),
                 profile = (case selectedEntity st of Value e \<Rightarrow> Some e
                            | Undefined \<Rightarrow> None | Null \<Rightarrow> None)\<rparr>)"

section \<open>What the two App components return\<close>

text \<open>
  App.js, lines 58 to 73. The condition of line 71 decides whether a \<open>SearchResults\<close>
  element is part of the output.
\<close>

definition App_shows_results :: "app_state \<Rightarrow> bool" where
  "App_shows_results st = (\<not> loading st \<and> error st = [] \<and> results st \<noteq> [])"

record app_view =
  button_disabled :: bool
  button_label :: jsstring
  loading_text :: bool
  error_message :: "jsstring option"
  no_matches_text :: bool
  search_results :: "sr_view option"

definition App_render :: "app_state \<Rightarrow> sr_state \<Rightarrow> app_view" where
  "App_render st child =
     \<lparr>button_disabled = loading st,
      button_label = (if loading st then lit ''Scanning...'' else lit ''Scan''),
      loading_text = loading st,
      error_message = (if error st = [] then None else Some (error st)),
      no_matches_text = (\<not> loading st \<and> error st = [] \<and> searched st \<and> results st = []),
      search_results = (if App_shows_results st
                        then SearchResults_render (Value (results st)) child else None)\<rparr>"

text \<open>
  The other App, lines 86 to 91. \<open>results.length\<close> throws a TypeError when \<open>results\<close>
  is \<open>undefined\<close> or \<open>null\<close>; line 91 reads it in every render, so the render fails then
  (\<open>None\<close>).
\<close>

definition App2_shows_results :: "app2_state \<Rightarrow> bool" where
  "App2_shows_results st =
     (case results2 st of Value rs \<Rightarrow> rs \<noteq> [] | Undefined \<Rightarrow> False | Null \<Rightarrow> False)"

record app2_view =
  scanning_text :: bool
  error_message2 :: "jsstring option"
  no_matches_text2 :: bool
  search_results2 :: "sr_view option"

definition App2_render :: "app2_state \<Rightarrow> sr_state \<Rightarrow> app2_view option" where
  "App2_render st child =
     (case results2 st of
        Undefined \<Rightarrow> None
      | Null \<Rightarrow> None
      | Value rs \<Rightarrow>
          Some \<lparr>scanning_text = loading2 st,
                error_message2 = (case error2 st of None \<Rightarrow> None
                                  | Some e \<Rightarrow> if e = [] then None else Some e),
                no_matches_text2 = (searched2 st \<and> \<not> loading2 st \<and> rs = []),
                search_results2 = (if rs \<noteq> [] then SearchResults_render (Value rs) child
                                   else None)\<rparr>)"

section \<open>The component tree\<close>

text \<open>
  React keeps the state of a child component for as long as consecutive renders of the
  parent contain the child at the same place; a child that a render leaves out is
  unmounted and its state is dropped, and a child that appears again starts from its
  initial state. A state update from a handler of an unmounted instance has no effect.
  The updates that one run of a handler makes between two suspension points are
  committed together.
  Each mounted instance of \<open>SearchResults\<close> carries a number that tells the instances
  apart; \<open>mounts\<close> counts the instances created so far.
\<close>

definition reconcile ::
  "bool \<Rightarrow> (nat \<times> sr_state) option \<Rightarrow> nat \<Rightarrow> (nat \<times> sr_state) option \<times> nat" where
  "reconcile present ch n =
     (if present
      then (case ch of Some c \<Rightarrow> (Some c, n) | None \<Rightarrow> (Some (n, SearchResults_init), Suc n))
      else (None, n))"

record ui =
  app :: app_state
  child :: "(nat \<times> sr_state) option"
  mounts :: nat

definition ui_init :: ui where
  "ui_init = \<lparr>app = App_init, child = None, mounts = 0\<rparr>"

definition commit :: "app_state \<Rightarrow> ui \<Rightarrow> ui" where
  "commit st u =
     (case reconcile (App_shows_results st) (child u) (mounts u) of
        (c, n) \<Rightarrow> \<lparr>app = st, child = c, mounts = n\<rparr>)"

text \<open>The user types, presses a key in the input, or clicks the button.\<close>

definition ui_change :: "jsstring \<Rightarrow> ui \<Rightarrow> ui" where
  "ui_change v u = commit (setSearchTerm v (app u)) u"

definition ui_keypress :: "jsstring \<Rightarrow> jsstring \<Rightarrow> ui \<Rightarrow> ui \<times> http_request option" where
  "ui_keypress node_env key u =
     (case handleKeyPress node_env key (app u) of (st, rq) \<Rightarrow> (commit st u, rq))"

definition ui_click_scan :: "jsstring \<Rightarrow> ui \<Rightarrow> ui \<times> http_request option" where
  "ui_click_scan node_env u =
     (if loading (app u) then (u, None)
      else case handleSearch_begin node_env (app u) of (st, rq) \<Rightarrow> (commit st u, rq))"

text \<open>A screen request settles.\<close>

definition ui_screen_settled :: "screen_response \<Rightarrow> ui \<Rightarrow> ui" where
  "ui_screen_settled r u = commit (handleSearch_resume r (app u)) u"

text \<open>
  The user clicks the card of \<open>r\<close>; the request is returned with the number of the
  instance that issued it. An entity request of instance \<open>i\<close> settles.
\<close>

definition ui_click_card :: "jsstring \<Rightarrow> match \<Rightarrow> ui \<Rightarrow> ui \<times> (nat \<times> http_request) option" where
  "ui_click_card node_env r u =
     (case child u of
        None \<Rightarrow> (u, None)
      | Some (i, s) \<Rightarrow>
          (case card_onClick node_env r s of
             (s', rq) \<Rightarrow> (u\<lparr>child := Some (i, s')\<rparr>, Some (i, rq))))"

definition ui_entity_settled :: "nat \<Rightarrow> entity_response \<Rightarrow> ui \<Rightarrow> ui" where
  "ui_entity_settled i r u =
     (case child u of
        None \<Rightarrow> u
      | Some (j, s) \<Rightarrow>
          if i = j then u\<lparr>child := Some (j, handleResultClick_resume r s)\<rparr> else u)"

definition child_state :: "(nat \<times> sr_state) option \<Rightarrow> sr_state" where
  "child_state ch = (case ch of Some (i, s) \<Rightarrow> s | None \<Rightarrow> SearchResults_init)"

definition ui_view :: "ui \<Rightarrow> app_view" where
  "ui_view u = App_render (app u) (child_state (child u))"

text \<open>
  The same tree for the other App component. Its render throws when \<open>results\<close> is
  \<open>undefined\<close> or \<open>null\<close> (\<open>results.length\<close>, line 91). No error boundary surrounds the
  component, so React then unmounts the whole tree for good: nothing is on screen, no
  event can reach a handler any more, and the state updates of continuations that are
  still pending have no effect. The state that made the render throw is kept in the
  model as the mark of that.
\<close>

definition App2_render_throws :: "app2_state \<Rightarrow> bool" where
  "App2_render_throws st =
     (case results2 st of Value rs \<Rightarrow> False | Undefined \<Rightarrow> True | Null \<Rightarrow> True)"

record ui2 =
  app2 :: app2_state
  child2 :: "(nat \<times> sr_state) option"
  mounts2 :: nat

definition ui2_init :: ui2 where
  "ui2_init = \<lparr>app2 = App2_init, child2 = None, mounts2 = 0\<rparr>"

definition commit2 :: "app2_state \<Rightarrow> ui2 \<Rightarrow> ui2" where
  "commit2 st u =
     (case reconcile (App2_shows_results st) (child2 u) (mounts2 u) of
        (c, n) \<Rightarrow> \<lparr>app2 = st, child2 = c, mounts2 = n\<rparr>)"

definition ui2_change :: "jsstring \<Rightarrow> ui2 \<Rightarrow> ui2" where
  "ui2_change v u =
     (if App2_render_throws (app2 u) then u else commit2 (setQuery v (app2 u)) u)"

definition ui2_submit :: "ui2 \<Rightarrow> ui2 \<times> http_request option" where
  "ui2_submit u =
     (if App2_render_throws (app2 u) then (u, None)
      else case handleSearch2_begin (app2 u) of (st, rq) \<Rightarrow> (commit2 st u, rq))"

definition ui2_screen_settled :: "screen_response \<Rightarrow> ui2 \<Rightarrow> ui2" where
  "ui2_screen_settled r u =
     (if App2_render_throws (app2 u) then u
      else commit2 (handleSearch2_resume r (app2 u)) u)"

definition ui2_click_card ::
  "jsstring \<Rightarrow> match \<Rightarrow> ui2 \<Rightarrow> ui2 \<times> (nat \<times> http_request) option" where
  "ui2_click_card node_env r u =
     (if App2_render_throws (app2 u) then (u, None)
      else case child2 u of
        None \<Rightarrow> (u, None)
      | Some (i, s) \<Rightarrow>
          (case card_onClick node_env r s of
             (s', rq) \<Rightarrow> (u\<lparr>child2 := Some (i, s')\<rparr>, Some (i, rq))))"

definition ui2_entity_settled :: "nat \<Rightarrow> entity_response \<Rightarrow> ui2 \<Rightarrow> ui2" where
  "ui2_entity_settled i r u =
     (if App2_render_throws (app2 u) then u
      else case child2 u of
        None \<Rightarrow> u
      | Some (j, s) \<Rightarrow>
          if i = j then u\<lparr>child2 := Some (j, handleResultClick_resume r s)\<rparr> else u)"

definition ui2_view :: "ui2 \<Rightarrow> app2_view option" where
  "ui2_view u = App2_render (app2 u) (child_state (child2 u))"

section \<open>Scenarios\<close>

text \<open>
  The match and the profile of the scenario "Acme Corp", and a backend that answers every
  query with one match named after it.
\<close>

definition acme :: match where
  "acme = \<lparr>m_entity_id = JUndefined, m_id = JStr (lit ''E1''), m_name = lit ''Acme Corp'',
           m_type = lit ''Company'', m_source = lit ''OFAC''\<rparr>"

definition acme_profile :: entity where
  "acme_profile = \<lparr>e_name = lit ''Acme Corp'', e_category = lit ''Company'',
                   e_source = lit ''OFAC'', e_aliases = Value [], e_sanctions = Value []\<rparr>"

definition echo :: "jsstring \<Rightarrow> match list nullable" where
  "echo q = Value [\<lparr>m_entity_id = JUndefined, m_id = JStr q, m_name = q,
                    m_type = lit ''Company'', m_source = lit ''OFAC''\<rparr>]"

text \<open>
  Two submissions in a row, the second before any response has arrived: the user types
  \<open>q1\<close>, presses Enter, types \<open>q2\<close>, presses Enter. The result is the tree after the
  second submission and the two requests issued.
\<close>

definition submit_twice ::
  "jsstring \<Rightarrow> jsstring \<Rightarrow> jsstring \<Rightarrow> ui
     \<Rightarrow> ui \<times> http_request option \<times> http_request option" where
  "submit_twice node_env q1 q2 u =
     (case ui_keypress node_env (lit ''Enter'') (ui_change q1 u) of
        (u1, rq1) \<Rightarrow>
          (case ui_keypress node_env (lit ''Enter'') (ui_change q2 u1) of
             (u2, rq2) \<Rightarrow> (u2, rq1, rq2)))"

definition submit_twice2 ::
  "jsstring \<Rightarrow> jsstring \<Rightarrow> ui2 \<Rightarrow> ui2 \<times> http_request option \<times> http_request option" where
  "submit_twice2 q1 q2 u =
     (case ui2_submit (ui2_change q1 u) of
        (u1, rq1) \<Rightarrow>
          (case ui2_submit (ui2_change q2 u1) of
             (u2, rq2) \<Rightarrow> (u2, rq1, rq2)))"

text \<open>Each App after a successful search for "Acme Corp" that found \<open>acme\<close>.\<close>

definition acme_found :: ui where
  "acme_found = ui_screen_settled (Resolved (Value [acme]))
                  (fst (ui_keypress (lit ''development'') (lit ''Enter'')
                         (ui_change (lit ''Acme Corp'') ui_init)))"

definition acme_found2 :: ui2 where
  "acme_found2 = ui2_screen_settled (Resolved (Value [acme]))
                   (fst (ui2_submit (ui2_change (lit ''Acme Corp'') ui2_init)))"

section \<open>Basic facts\<close>

lemma app_commit [simp]: "app (commit st u) = st"
  by (simp add: commit_def split: prod.split)

lemma app2_commit2 [simp]: "app2 (commit2 st u) = st"
  by (simp add: commit2_def split: prod.split)

lemmas scenario_defs =
  ui_keypress_def ui_change_def ui_init_def App_init_def ui_screen_settled_def
  handleKeyPress_def handleSearch_begin_def setSearchTerm_def commit_def reconcile_def
  App_shows_results_def ui_view_def App_render_def child_state_def trim_def
  isWhiteSpace_def API_BASE_URL_def ui_click_card_def ui_entity_settled_def
  card_onClick_def card_identifier_def js_or_def handleResultClick_begin_def
  SearchResults_init_def

lemmas scenario2_defs =
  ui2_submit_def ui2_change_def ui2_init_def App2_init_def ui2_screen_settled_def
  handleSearch2_begin_def setQuery_def commit2_def reconcile_def
  App2_shows_results_def App2_render_throws_def ui2_view_def App2_render_def
  child_state_def trim_def
  isWhiteSpace_def API_BASE_URL_def ui2_click_card_def ui2_entity_settled_def
  card_onClick_def card_identifier_def js_or_def handleResultClick_begin_def
  SearchResults_init_def

lemma acme_found_eq:
  "acme_found = \<lparr>app = \<lparr>searchTerm = lit ''Acme Corp'', results = [acme], loading = False,
                           error = [], searched = True\<rparr>,
                   child = Some (0, SearchResults_init), mounts = 1\<rparr>"
  by (simp add: acme_found_def scenario_defs acme_def)

lemma acme_found2_eq:
  "acme_found2 = \<lparr>app2 = \<lparr>query = lit ''Acme Corp'', results2 = Value [acme],
                             searched2 = True, loading2 = False, error2 = None\<rparr>,
                    child2 = Some (0, SearchResults_init), mounts2 = 1\<rparr>"
  by (simp add: acme_found2_def scenario2_defs acme_def)

lemma blank_example: "trim (lit '' '' @ [9, 160, 8232]) = []"
  by (simp add: trim_def isWhiteSpace_def)

section \<open>Order of responses\<close>

text \<open>
  App.js keeps the display tied to the search last submitted in two ways: a submission
  empties \<open>results\<close> and sets \<open>loading\<close>, and the Scan button is disabled while \<open>loading\<close>
  holds, so a click cannot start a second search before the first has settled.
\<close>

lemma App_button_refuses_while_loading:
  "loading (app u) \<Longrightarrow> ui_click_scan node_env u = (u, None)"
  "trim (searchTerm (app u)) \<noteq> [] \<Longrightarrow>
     button_disabled (ui_view (fst (ui_keypress node_env (lit ''Enter'') u)))"
  by (simp_all add: ui_click_scan_def ui_keypress_def handleKeyPress_def
      handleSearch_begin_def ui_view_def App_render_def)

text \<open>
  When the responses of two overlapping submissions arrive in the order of the
  submissions, App.js ends with the results of the second.
\<close>

lemma App_in_order_arrival_shows_latest:
  assumes "trim q1 \<noteq> []" and "trim q2 \<noteq> []"
  shows "(case submit_twice node_env q1 q2 u of
            (u2, rq1, rq2) \<Rightarrow>
              rq1 = Some (POST (API_BASE_URL node_env @ lit ''/v1/screen'') q1)
              \<and> rq2 = Some (POST (API_BASE_URL node_env @ lit ''/v1/screen'') q2)
              \<and> results (app (ui_screen_settled (Resolved d2)
                               (ui_screen_settled (Resolved d1) u2)))
                  = or_empty d2)"
  using assms
  by (simp add: submit_twice_def ui_keypress_def ui_change_def ui_screen_settled_def
      handleKeyPress_def handleSearch_begin_def setSearchTerm_def split: prod.split)

text \<open>
  C1. The claim asks that the response of a superseded request never updates the state.
  The handler of the Enter key calls \<open>handleSearch\<close> without looking at \<open>loading\<close>, and
  the continuation of \<open>handleSearch\<close> stores whatever response it is given. In App.js,
  "Alpha" is submitted with Enter, then "Beta" with Enter while the first request is in
  flight; the response for "Beta" arrives first and the response for "Alpha" last. The
  search term is then "Beta", and the results held and the cards rendered are those of
  "Alpha", the superseded query.
\<close>

theorem C1_stale_response_overwrites_latest:
  "(case submit_twice (lit ''development'') (lit ''Alpha'') (lit ''Beta'') ui_init of
      (u2, rq1, rq2) \<Rightarrow>
        rq1 = Some (POST (lit ''http://localhost:8000/v1/screen'') (lit ''Alpha''))
        \<and> rq2 = Some (POST (lit ''http://localhost:8000/v1/screen'') (lit ''Beta''))
        \<and> searchTerm (app (ui_screen_settled (Resolved (echo (lit ''Alpha'')))
                         (ui_screen_settled (Resolved (echo (lit ''Beta''))) u2)))
            = lit ''Beta''
        \<and> results (app (ui_screen_settled (Resolved (echo (lit ''Alpha'')))
                         (ui_screen_settled (Resolved (echo (lit ''Beta''))) u2)))
            = or_empty (echo (lit ''Alpha''))
        \<and> or_empty (echo (lit ''Alpha'')) \<noteq> or_empty (echo (lit ''Beta''))
        \<and> map_option cards (search_results (ui_view
              (ui_screen_settled (Resolved (echo (lit ''Alpha'')))
                 (ui_screen_settled (Resolved (echo (lit ''Beta''))) u2))))
            = Some (map render_card (or_empty (echo (lit ''Alpha'')))))"
  by (simp add: submit_twice_def ui_keypress_def ui_change_def ui_init_def App_init_def
      ui_screen_settled_def handleKeyPress_def handleSearch_begin_def setSearchTerm_def
      commit_def reconcile_def App_shows_results_def ui_view_def App_render_def
      child_state_def echo_def trim_def isWhiteSpace_def API_BASE_URL_def)

text \<open>
  The other App has no gate at all, and the same two submissions end the same way there.
  A response without a list of matches ends differently: the render throws, the tree is
  unmounted, and a response that arrives later is not applied.
\<close>

lemma other_App_stale_response:
  "(case submit_twice2 (lit ''Alpha'') (lit ''Beta'') ui2_init of
      (v2, rq1, rq2) \<Rightarrow>
        rq1 = Some (POST (lit ''http://localhost:8000/v1/screen'') (lit ''Alpha''))
        \<and> rq2 = Some (POST (lit ''http://localhost:8000/v1/screen'') (lit ''Beta''))
        \<and> results2 (app2 (ui2_screen_settled (Resolved (echo (lit ''Alpha'')))
                           (ui2_screen_settled (Resolved (echo (lit ''Beta''))) v2)))
            = echo (lit ''Alpha''))"
  by (simp add: submit_twice2_def scenario2_defs echo_def)

lemma other_App_unmounted_after_failed_render:
  assumes "d = Undefined \<or> d = Null" and "\<not> App2_render_throws (app2 v)"
  shows "ui2_view (ui2_screen_settled (Resolved d) v) = None"
    and "ui2_screen_settled r (ui2_screen_settled (Resolved d) v)
         = ui2_screen_settled (Resolved d) v"
    and "ui2_submit (ui2_screen_settled (Resolved d) v)
         = (ui2_screen_settled (Resolved d) v, None)"
  using assms
  by (auto simp add: ui2_screen_settled_def ui2_submit_def ui2_view_def App2_render_def
      App2_render_throws_def)

section \<open>Backend location of each entry point\<close>

text \<open>
  In App.js and in SearchResults.jsx every request goes to the address that
  \<open>API_BASE_URL\<close> derives from the environment.
\<close>

lemma App_requests_use_API_BASE_URL:
  "snd (handleSearch_begin node_env st) = None
   \<or> snd (handleSearch_begin node_env st)
       = Some (POST (API_BASE_URL node_env @ lit ''/v1/screen'') (searchTerm st))"
  "snd (handleResultClick_begin node_env entityId s)
     = GET (API_BASE_URL node_env @ lit ''/v1/entity/'' @ ToString entityId)"
  by (simp_all add: handleSearch_begin_def handleResultClick_begin_def)

text \<open>
  C2. The claim asks that every entry point sends both kinds of request to the address
  resolved from the environment. The other App does not: in production its screen
  request still goes to \<open>http://localhost:8000/v1/screen\<close>, while App.js sends it to the
  production endpoint and the \<open>SearchResults\<close> component that the other App itself
  renders sends the entity request there. The static page posts to the relative address
  \<open>/v1/screen\<close>.
\<close>

theorem C2_other_App_ignores_environment:
  "snd (handleSearch2_begin (App2_init\<lparr>query := lit ''Acme''\<rparr>))
     = Some (POST (lit ''http://localhost:8000/v1/screen'') (lit ''Acme''))
   \<and> snd (handleSearch_begin (lit ''production'') (App_init\<lparr>searchTerm := lit ''Acme''\<rparr>))
     = Some (POST (lit ''https://project-sentinel-2.onrender.com/v1/screen'') (lit ''Acme''))
   \<and> snd (card_onClick (lit ''production'') acme SearchResults_init)
     = GET (lit ''https://project-sentinel-2.onrender.com/v1/entity/E1'')
   \<and> fetched (snd (performScreen_begin \<lparr>entity_name_value = lit ''Acme'', resultsDiv = []\<rparr>))
     = Some (POST (lit ''/v1/screen'') (lit ''Acme''))"
  by (simp add: handleSearch_begin_def handleSearch2_begin_def performScreen_begin_def
      trim_def isWhiteSpace_def API_BASE_URL_def App_init_def App2_init_def
      card_onClick_def card_identifier_def js_or_def handleResultClick_begin_def acme_def
      Let_def)

section \<open>A new search and the selected entity\<close>

text \<open>
  In App.js a submission with a non-blank term empties \<open>results\<close> and sets \<open>loading\<close>, so
  the next render leaves \<open>SearchResults\<close> out: the component is unmounted and the selected
  entity goes with it. The instance mounted for the new results starts from the initial
  state, and a late entity response of the old instance changes nothing.
\<close>

lemma App_submit_drops_detail:
  assumes "trim (searchTerm (app u)) \<noteq> []"
  shows "child (fst (ui_keypress node_env (lit ''Enter'') u)) = None"
    and "search_results (ui_view (fst (ui_keypress node_env (lit ''Enter'') u))) = None"
    and "\<not> loading (app u) \<Longrightarrow> child (fst (ui_click_scan node_env u)) = None"
  using assms
  by (simp_all add: ui_keypress_def ui_click_scan_def handleKeyPress_def handleSearch_begin_def
      commit_def reconcile_def App_shows_results_def ui_view_def App_render_def)

lemma App_remount_is_fresh:
  assumes "child u = None"
  shows "child (ui_screen_settled r u) = None
         \<or> child (ui_screen_settled r u) = Some (mounts u, SearchResults_init)"
  using assms
  by (simp add: ui_screen_settled_def commit_def reconcile_def)

lemma App_late_entity_response_is_dropped:
  assumes "child u = Some (i, s)" and "i < mounts u" and "trim (searchTerm (app u)) \<noteq> []"
  shows "ui_entity_settled i r'
           (ui_screen_settled r (fst (ui_keypress node_env (lit ''Enter'') u)))
         = ui_screen_settled r (fst (ui_keypress node_env (lit ''Enter'') u))"
  using assms
  by (simp add: ui_keypress_def handleKeyPress_def handleSearch_begin_def
      ui_screen_settled_def commit_def reconcile_def App_shows_results_def
      ui_entity_settled_def)

text \<open>
  C3. The claim asks that a new search resets the detail loader. The other App keeps
  \<open>results\<close> during a search and renders \<open>SearchResults\<close> whenever they are not empty, so
  the component stays mounted: after "Acme Corp" is found, its card clicked and its
  profile loaded, a search for "Beta" ends with the cards of "Beta" and, below them, the
  profile of Acme Corp.
\<close>

theorem C3_other_App_keeps_profile_across_search:
  "ui2_view
     (ui2_screen_settled (Resolved (echo (lit ''Beta'')))
       (fst (ui2_submit (ui2_change (lit ''Beta'')
         (ui2_entity_settled 0 (EntityResolved (Value acme_profile))
           (fst (ui2_click_card (lit ''development'') acme acme_found2)))))))
     = Some \<lparr>scanning_text = False,
             error_message2 = None,
             no_matches_text2 = False,
             search_results2 = Some \<lparr>heading = lit ''Results'',
                                     cards = map render_card (or_empty (echo (lit ''Beta''))),
                                     loading_details = False, error_text = None,
                                     profile = Some acme_profile\<rparr>\<rparr>"
  by (simp add: acme_found2_eq scenario2_defs echo_def)

section \<open>A failing entity request\<close>

text \<open>
  C4. Whatever entity response settles, the state of the App is untouched. When the
  results are on screen and the entity request of the mounted \<open>SearchResults\<close> fails, the
  component still renders one card per held result, now with the line "Failed to fetch
  entity details", no loading line, and the profile it had; everything else the App
  renders is as before. This holds under both App components.
\<close>

theorem C4_detail_failure_keeps_results:
  "app (ui_entity_settled j r u) = app u
   \<and> app2 (ui2_entity_settled j r v) = app2 v
   \<and> (child u = Some (i, s) \<and> App_shows_results (app u) \<longrightarrow>
        search_results (ui_view (ui_entity_settled i EntityRejected u))
          = Some \<lparr>heading = lit ''Results'',
                  cards = map render_card (results (app u)),
                  loading_details = False,
                  error_text = Some (lit ''Failed to fetch entity details''),
                  profile = (case selectedEntity s of Value e \<Rightarrow> Some e
                             | Undefined \<Rightarrow> None | Null \<Rightarrow> None)\<rparr>
        \<and> map_option cards (search_results (ui_view u))
            = Some (map render_card (results (app u)))
        \<and> (ui_view (ui_entity_settled i EntityRejected u))\<lparr>search_results := None\<rparr>
            = (ui_view u)\<lparr>search_results := None\<rparr>)
   \<and> (child2 v = Some (i, s) \<and> results2 (app2 v) = Value rs \<and> rs \<noteq> [] \<longrightarrow>
        map_option search_results2 (ui2_view (ui2_entity_settled i EntityRejected v))
          = Some (Some \<lparr>heading = lit ''Results'',
                  cards = map render_card rs,
                  loading_details = False,
                  error_text = Some (lit ''Failed to fetch entity details''),
                  profile = (case selectedEntity s of Value e \<Rightarrow> Some e
                             | Undefined \<Rightarrow> None | Null \<Rightarrow> None)\<rparr>)
        \<and> map_option (map_option cards \<circ> search_results2) (ui2_view v)
            = Some (Some (map render_card rs)))"
  by (auto simp add: ui_entity_settled_def ui2_entity_settled_def ui_view_def ui2_view_def
      App_render_def App2_render_def child_state_def App_shows_results_def
      App2_render_throws_def split: option.splits prod.splits)

theorem C4_detail_failure_keeps_results_witness:
  "child (fst (ui_click_card (lit ''development'') acme acme_found))
     = Some (0, SearchResults_init\<lparr>sr_loading := True\<rparr>)
   \<and> App_shows_results (app (fst (ui_click_card (lit ''development'') acme acme_found)))
   \<and> search_results (ui_view (ui_entity_settled 0 EntityRejected
         (fst (ui_click_card (lit ''development'') acme acme_found))))
       = Some \<lparr>heading = lit ''Results'', cards = [render_card acme], loading_details = False,
               error_text = Some (lit ''Failed to fetch entity details''), profile = None\<rparr>
   \<and> child2 (fst (ui2_click_card (lit ''development'') acme acme_found2))
     = Some (0, SearchResults_init\<lparr>sr_loading := True\<rparr>)
   \<and> results2 (app2 (fst (ui2_click_card (lit ''development'') acme acme_found2))) = Value [acme]
   \<and> map_option search_results2 (ui2_view (ui2_entity_settled 0 EntityRejected
         (fst (ui2_click_card (lit ''development'') acme acme_found2))))
       = Some (Some \<lparr>heading = lit ''Results'', cards = [render_card acme],
               loading_details = False,
               error_text = Some (lit ''Failed to fetch entity details''), profile = None\<rparr>)"
proof -
  let ?u = "fst (ui_click_card (lit ''development'') acme acme_found)"
  let ?v = "fst (ui2_click_card (lit ''development'') acme acme_found2)"
  have a: "child ?u = Some (0, SearchResults_init\<lparr>sr_loading := True\<rparr>)"
    by (simp add: acme_found_eq ui_click_card_def card_onClick_def
        handleResultClick_begin_def SearchResults_init_def)
  have b: "App_shows_results (app ?u)"
    by (simp add: acme_found_eq ui_click_card_def card_onClick_def
        handleResultClick_begin_def App_shows_results_def)
  have c: "results (app ?u) = [acme]"
    by (simp add: acme_found_eq ui_click_card_def card_onClick_def
        handleResultClick_begin_def)
  have d: "child2 ?v = Some (0, SearchResults_init\<lparr>sr_loading := True\<rparr>)"
    by (simp add: acme_found2_eq ui2_click_card_def card_onClick_def
        handleResultClick_begin_def SearchResults_init_def App2_render_throws_def)
  have e: "results2 (app2 ?v) = Value [acme]"
    by (simp add: acme_found2_eq ui2_click_card_def card_onClick_def
        handleResultClick_begin_def App2_render_throws_def)
  from C4_detail_failure_keeps_results
    [of 0 EntityRejected ?u ?v 0 "SearchResults_init\<lparr>sr_loading := True\<rparr>" "[acme]"]
    a b c d e
  show ?thesis by (simp add: SearchResults_init_def)
qed

section \<open>A failing search\<close>

text \<open>
  In App.js a rejected screen request leaves the error message on screen and nothing
  else: no loading line, no \<open>SearchResults\<close>.
\<close>

lemma App_failed_search_shows_error_only:
  "error_message (ui_view (ui_screen_settled Rejected u))
     = Some (lit ''Search failed. Please check the connection and try again.'')
   \<and> \<not> loading_text (ui_view (ui_screen_settled Rejected u))
   \<and> search_results (ui_view (ui_screen_settled Rejected u)) = None
   \<and> child (ui_screen_settled Rejected u) = None"
  by (simp add: ui_screen_settled_def ui_view_def App_render_def App_shows_results_def
      commit_def reconcile_def)

text \<open>
  C5. The claim asks that a failed search shows the error and no match list. The other
  App neither empties \<open>results\<close> on a submission nor looks at \<open>error\<close> before rendering
  them: after "Acme Corp" is found, a search for "Beta" that is rejected ends with the
  message "Search failed" and the card of Acme Corp.
\<close>

theorem C5_other_App_shows_old_matches_with_error:
  "ui2_view (ui2_screen_settled Rejected (fst (ui2_submit (ui2_change (lit ''Beta'') acme_found2))))
     = Some \<lparr>scanning_text = False,
             error_message2 = Some (lit ''Search failed''),
             no_matches_text2 = False,
             search_results2 = Some \<lparr>heading = lit ''Results'', cards = [render_card acme],
                                     loading_details = False, error_text = None,
                                     profile = None\<rparr>\<rparr>"
  by (simp add: acme_found2_eq scenario2_defs)

section \<open>Blank input\<close>

text \<open>
  C6. When the trimmed input is empty, no entry point issues a request and the state
  stays as it was: \<open>handleSearch\<close> of App.js (called directly or through the Enter key),
  \<open>handleSearch\<close> of the other App, and \<open>performScreen\<close> of the static page, which only
  raises an alert.
\<close>

theorem C6_blank_input_no_request:
  "(trim (searchTerm st) = [] \<longrightarrow>
      handleSearch_begin node_env st = (st, None) \<and> handleKeyPress node_env key st = (st, None))
   \<and> (trim (query st2) = [] \<longrightarrow> handleSearch2_begin st2 = (st2, None))
   \<and> (trim (entity_name_value pg) = [] \<longrightarrow>
        fst (performScreen_begin pg) = pg \<and> fetched (snd (performScreen_begin pg)) = None)"
  by (simp add: handleSearch_begin_def handleKeyPress_def handleSearch2_begin_def
      performScreen_begin_def)

theorem C6_blank_input_no_request_witness:
  "trim (lit '' '' @ [9, 160, 8232]) = []
   \<and> handleSearch_begin (lit ''production'') (App_init\<lparr>searchTerm := lit '' '' @ [9, 160, 8232]\<rparr>)
       = (App_init\<lparr>searchTerm := lit '' '' @ [9, 160, 8232]\<rparr>, None)
   \<and> handleSearch2_begin (App2_init\<lparr>query := lit '' '' @ [9, 160, 8232]\<rparr>)
       = (App2_init\<lparr>query := lit '' '' @ [9, 160, 8232]\<rparr>, None)
   \<and> fetched (snd (performScreen_begin
         \<lparr>entity_name_value = lit '' '' @ [9, 160, 8232], resultsDiv = []\<rparr>)) = None"
  using C6_blank_input_no_request
    [of "App_init\<lparr>searchTerm := lit '' '' @ [9, 160, 8232]\<rparr>" "lit ''production''" "lit ''Enter''"
        "App2_init\<lparr>query := lit '' '' @ [9, 160, 8232]\<rparr>"
        "\<lparr>entity_name_value = lit '' '' @ [9, 160, 8232], resultsDiv = []\<rparr>"]
    blank_example
  by simp

section \<open>The identifier of a match\<close>

text \<open>
  C7, as the code has it. For a match whose identifier is a non-empty string \<open>v\<close>,
  carried in \<open>entity_id\<close>, or in \<open>id\<close> with \<open>entity_id\<close> absent, a click on its card sets
  the loading flag, clears the error and issues \<open>GET /v1/entity/v\<close> at the configured
  base; both spellings give the same state and the same request.
\<close>

theorem C7_identifier_aliasing:
  assumes "v \<noteq> []"
    and "m_entity_id r1 = JStr v"
    and "m_entity_id r2 = JUndefined" and "m_id r2 = JStr v"
  shows "card_onClick node_env r1 st
           = (st\<lparr>sr_loading := True, sr_error := None\<rparr>,
              GET (API_BASE_URL node_env @ lit ''/v1/entity/'' @ v))
         \<and> card_onClick node_env r2 st = card_onClick node_env r1 st"
  using assms
  by (simp add: card_identifier_def js_or_def card_onClick_def handleResultClick_begin_def)

theorem C7_identifier_aliasing_witness:
  "lit ''E1'' \<noteq> []
   \<and> card_onClick (lit ''development'') (acme\<lparr>m_entity_id := JStr (lit ''E1''), m_id := JUndefined\<rparr>)
        SearchResults_init
       = (SearchResults_init\<lparr>sr_loading := True, sr_error := None\<rparr>,
          GET (lit ''http://localhost:8000/v1/entity/E1''))
   \<and> card_onClick (lit ''development'') acme SearchResults_init
       = (SearchResults_init\<lparr>sr_loading := True, sr_error := None\<rparr>,
          GET (lit ''http://localhost:8000/v1/entity/E1''))"
  using C7_identifier_aliasing
    [of "lit ''E1''" "acme\<lparr>m_entity_id := JStr (lit ''E1''), m_id := JUndefined\<rparr>" acme
        "lit ''development''" SearchResults_init]
  by (simp add: acme_def API_BASE_URL_def)

text \<open>
  C7 as stated fails for the empty identifier: carried in \<open>entity_id\<close> alone it is skipped
  by \<open>||\<close> and the request goes to \<open>/v1/entity/undefined\<close>; carried in \<open>id\<close> alone it is
  used and the request goes to \<open>/v1/entity/\<close>.
\<close>

theorem C7_empty_entity_id_counterexample:
  "snd (card_onClick (lit ''development'') (acme\<lparr>m_entity_id := JStr [], m_id := JUndefined\<rparr>)
          SearchResults_init)
     = GET (lit ''http://localhost:8000/v1/entity/undefined'')
   \<and> snd (card_onClick (lit ''development'') (acme\<lparr>m_entity_id := JUndefined, m_id := JStr []\<rparr>)
          SearchResults_init)
     = GET (lit ''http://localhost:8000/v1/entity/'')
   \<and> snd (card_onClick (lit ''development'') (acme\<lparr>m_entity_id := JStr [], m_id := JUndefined\<rparr>)
          SearchResults_init)
     \<noteq> snd (card_onClick (lit ''development'') (acme\<lparr>m_entity_id := JUndefined, m_id := JStr []\<rparr>)
          SearchResults_init)"
  by (simp add: acme_def API_BASE_URL_def card_identifier_def js_or_def card_onClick_def
      handleResultClick_begin_def)

section \<open>The submitted query\<close>

text \<open>The static page sends the trimmed input.\<close>

lemma performScreen_sends_trimmed:
  "trim (entity_name_value pg) \<noteq> [] \<Longrightarrow>
     fetched (snd (performScreen_begin pg))
       = Some (POST (lit ''/v1/screen'') (trim (entity_name_value pg)))"
  by (simp add: performScreen_begin_def Let_def)

text \<open>
  C8. The claim asks that the body carries the trimmed input. Both App components trim
  the term only for the guard and send it as typed: for the input " Acme " the body
  carries " Acme ", where the static page sends "Acme".
\<close>

theorem C8_App_sends_untrimmed_term:
  "snd (handleSearch_begin (lit ''production'') (App_init\<lparr>searchTerm := lit '' Acme ''\<rparr>))
     = Some (POST (lit ''https://project-sentinel-2.onrender.com/v1/screen'') (lit '' Acme ''))
   \<and> snd (handleSearch2_begin (App2_init\<lparr>query := lit '' Acme ''\<rparr>))
     = Some (POST (lit ''http://localhost:8000/v1/screen'') (lit '' Acme ''))
   \<and> trim (lit '' Acme '') = lit ''Acme''
   \<and> fetched (snd (performScreen_begin \<lparr>entity_name_value = lit '' Acme '', resultsDiv = []\<rparr>))
     = Some (POST (lit ''/v1/screen'') (lit ''Acme''))"
  by (simp add: handleSearch_begin_def handleSearch2_begin_def performScreen_begin_def
      trim_def isWhiteSpace_def API_BASE_URL_def App_init_def App2_init_def Let_def)

section \<open>SearchResults without results\<close>

text \<open>
  C9. \<open>SearchResults\<close> returns \<open>null\<close> exactly when its \<open>results\<close> are \<open>undefined\<close>, \<open>null\<close>
  or the empty list, whatever its own state holds: then there is no heading, no loading
  line, no error line and no profile.
\<close>

theorem C9_no_results_renders_null:
  "(SearchResults_render r st = None) = (r = Undefined \<or> r = Null \<or> r = Value [])"
  by (cases r) simp_all

section \<open>A falsy entity_id\<close>

text \<open>
  C10. When \<open>entity_id\<close> is present but falsy (the empty string, \<open>null\<close>, \<open>false\<close>), or
  absent, the card hands the value of \<open>id\<close> to \<open>handleResultClick\<close>, and the request is
  built from \<open>id\<close>.
\<close>

theorem C10_falsy_entity_id_falls_back_to_id:
  "\<not> truthy (m_entity_id r) \<Longrightarrow>
     card_identifier r = m_id r
     \<and> snd (card_onClick node_env r st)
         = GET (API_BASE_URL node_env @ lit ''/v1/entity/'' @ ToString (m_id r))"
  by (simp add: card_identifier_def js_or_def card_onClick_def handleResultClick_begin_def)

theorem C10_falsy_entity_id_falls_back_to_id_witness:
  "\<not> truthy (m_entity_id (acme\<lparr>m_entity_id := JStr []\<rparr>))
   \<and> card_identifier (acme\<lparr>m_entity_id := JStr []\<rparr>) = JStr (lit ''E1'')
   \<and> snd (card_onClick (lit ''development'') (acme\<lparr>m_entity_id := JStr []\<rparr>) SearchResults_init)
       = GET (lit ''http://localhost:8000/v1/entity/E1'')"
  using C10_falsy_entity_id_falls_back_to_id
    [of "acme\<lparr>m_entity_id := JStr []\<rparr>" "lit ''development''" SearchResults_init]
  by (simp add: acme_def API_BASE_URL_def)

end
